theory Spec2Isabelle
  imports Main
begin

section \<open>The tooltip directive (tooltip.directive.ts)\<close>

text \<open>
  \<open>NbTooltipDirective\<close> is a coordinator: it owns a handful of fields and issues commands
  to injected collaborators (the overlay service, the position builder, the trigger
  strategy builder, the content renderer). The model is explicit state passing over one
  record that holds the fields of the class, the state of the collaborators that the
  directive can observe (the overlays it created, the content rendered into them, the live
  subscriptions) and the sequence of commands issued to the collaborators.
\<close>

subsection \<open>Values\<close>

text \<open>
  A field declared without initialiser is \<open>undefined\<close>; \<open>hide()\<close> stores \<open>null\<close>; both are
  falsy, an object reference is truthy.
\<close>

datatype 'a nullable = Undefined | Null | Ref 'a

fun truthy :: "'a nullable \<Rightarrow> bool" where
  "truthy (Ref _) = True"
| "truthy _ = False"

text \<open>
  Modelled from the spec: the enumerations \<open>NbPosition\<close>, \<open>NbAdjustment\<close> and \<open>NbTrigger\<close>
  are declared in the cdk module, which is not part of the file; their members are the
  placements, adjustment policies and trigger modes the data model lists.
\<close>

datatype NbPosition = TOP | RIGHT | BOTTOM | LEFT | START | END

datatype NbAdjustment = NOOP | CLOCKWISE | COUNTERCLOCKWISE

datatype NbTrigger = CLICK | HOVER | HINT | FOCUS | NOOP_TRIGGER

text \<open>The host element is known by its identity only.\<close>

type_synonym ElementRef = nat

subsection \<open>Collaborator data\<close>

text \<open>
  Modelled from the spec: the position builder, \<open>connectedTo(host)\<close> followed by
  \<open>.position(Placement)\<close>, \<open>.adjustment(AdjustmentPolicy)\<close> and \<open>.offset(number)\<close>, yields a
  position strategy. The strategy is the record of what the chain was given; a parameter
  that no step of the chain has set is \<open>None\<close>.
\<close>

record NbAdjustableConnectedPositionStrategy =
  strategy_host :: ElementRef
  strategy_position :: "NbPosition option"
  strategy_adjustment :: "NbAdjustment option"
  strategy_offset :: "int option"

definition connectedTo :: "ElementRef \<Rightarrow> NbAdjustableConnectedPositionStrategy" where
  "connectedTo h =
     \<lparr>strategy_host = h, strategy_position = None, strategy_adjustment = None,
      strategy_offset = None\<rparr>"

definition builder_position ::
  "NbPosition \<Rightarrow> NbAdjustableConnectedPositionStrategy \<Rightarrow> NbAdjustableConnectedPositionStrategy"
where
  "builder_position p st = st\<lparr>strategy_position := Some p\<rparr>"

definition builder_adjustment ::
  "NbAdjustment \<Rightarrow> NbAdjustableConnectedPositionStrategy \<Rightarrow> NbAdjustableConnectedPositionStrategy"
where
  "builder_adjustment a st = st\<lparr>strategy_adjustment := Some a\<rparr>"

definition builder_offset ::
  "int \<Rightarrow> NbAdjustableConnectedPositionStrategy \<Rightarrow> NbAdjustableConnectedPositionStrategy"
where
  "builder_offset n st = st\<lparr>strategy_offset := Some n\<rparr>"

text \<open>
  Modelled from the spec: the trigger strategy builder,
  \<open>trigger(TriggerMode).host(element).container(supplier).build()\<close>. The supplier is
  \<open>() => this.container\<close>: it reads the directive's field when asked, so the strategy keeps
  the mode and the host only.
\<close>

record NbTriggerStrategy =
  strategy_trigger :: NbTrigger
  trigger_host :: ElementRef

text \<open>
  Modelled from the spec: the scroll strategy \<open>overlay.scrollStrategies.reposition()\<close>, the
  "reposition on scroll" policy; the directive asks for no other.
\<close>

datatype scroll_strategy = Reposition

text \<open>The configuration literal that \<open>createOverlay\<close> passes to \<open>overlay.create\<close>.\<close>

record overlay_config =
  cfg_positionStrategy :: "NbAdjustableConnectedPositionStrategy nullable"
  cfg_scrollStrategy :: scroll_strategy

text \<open>
  Modelled from the spec: an overlay handle (\<open>NbOverlayRef\<close>) is a floating surface with
  \<open>detach()\<close>, \<open>dispose()\<close> and \<open>hasAttached()\<close>. An overlay is known here by its position in
  the list of overlays created so far; it remembers its configuration, the content
  rendered into it, and whether it was disposed.
\<close>

record NbOverlayRef =
  ov_config :: overlay_config
  ov_attached :: "nat option"
  ov_disposed :: bool

text \<open>
  The object literal that \<open>openTooltip\<close> hands to \<open>createContainer\<close>. The \<open>cfr\<close> entry is
  the injected resolver, the same at every call, and is left out.
\<close>

record container_props =
  props_position :: NbPosition
  props_content :: "string nullable"
  props_context :: "string \<rightharpoonup> string"

text \<open>
  Modelled from the spec: the rendered content (\<open>ComponentRef\<close> of the tooltip component),
  which \<open>createContainer\<close> creates inside an overlay and \<open>patch\<close> updates. The context is
  handed over by reference and stays the directive's own object, so the component keeps
  the overlay it was rendered into, its position and its text.
\<close>

record NbTooltipComponent =
  comp_overlay :: nat
  comp_position :: NbPosition
  comp_content :: "string nullable"

text \<open>The commands the directive issues to its collaborators, in the order issued.\<close>

datatype call =
    TriggerStrategy_build NbTriggerStrategy
  | Subscribe_show
  | Subscribe_hide
  | PositionStrategy_build NbAdjustableConnectedPositionStrategy
  | Subscribe_positionChange
  | Overlay_create overlay_config
  | CreateContainer nat container_props
  | Patch "nat nullable" NbPosition
  | Detach nat
  | Dispose nat

subsection \<open>State\<close>

text \<open>
  The first ten fields are those of the class (\<open>context\<close> is written \<open>context_bag\<close>). The
  constructor's other parameters are the injected collaborators, whose observable state
  is the rest of the record: every overlay created, every content rendered, the number of
  live subscriptions on each of the three streams, and the commands issued.
\<close>

record tooltip =
  context_bag :: "string \<rightharpoonup> string"
  content :: "string nullable"
  position :: NbPosition
  adjustment :: NbAdjustment
  trigger :: NbTrigger
  ref :: "nat nullable"
  container :: "nat nullable"
  positionStrategy :: "NbAdjustableConnectedPositionStrategy nullable"
  alive :: bool
  hostRef :: ElementRef
  overlays :: "NbOverlayRef list"
  components :: "NbTooltipComponent list"
  show_subscribers :: nat
  hide_subscribers :: nat
  position_subscribers :: nat
  calls :: "call list"

text \<open>The constructor and the field initialisers.\<close>

definition new_directive :: "ElementRef \<Rightarrow> tooltip" where
  "new_directive h =
     \<lparr>context_bag = Map.empty, content = Undefined, position = TOP,
      adjustment = CLOCKWISE, trigger = HINT, ref = Undefined, container = Undefined,
      positionStrategy = Undefined, alive = True, hostRef = h,
      overlays = [], components = [],
      show_subscribers = 0, hide_subscribers = 0, position_subscribers = 0,
      calls = []\<rparr>"

subsection \<open>Collaborator operations\<close>

text \<open>
  Modelled from the spec: \<open>OverlayHost.create(config)\<close> returns a new overlay handle with
  nothing attached.
\<close>

definition overlay_create :: "overlay_config \<Rightarrow> tooltip \<Rightarrow> nat \<times> tooltip" where
  "overlay_create cfg s =
     (length (overlays s),
      s\<lparr>overlays := overlays s @ [\<lparr>ov_config = cfg, ov_attached = None, ov_disposed = False\<rparr>],
        calls := calls s @ [Overlay_create cfg]\<rparr>)"

text \<open>Modelled from the spec: \<open>detach()\<close> removes the rendered content and keeps the overlay.\<close>

definition overlay_detach :: "nat \<Rightarrow> tooltip \<Rightarrow> tooltip" where
  "overlay_detach r s =
     s\<lparr>overlays := (overlays s)[r := (overlays s ! r)\<lparr>ov_attached := None\<rparr>],
       calls := calls s @ [Detach r]\<rparr>"

text \<open>Modelled from the spec: \<open>dispose()\<close> releases the overlay for good.\<close>

definition overlay_dispose :: "nat \<Rightarrow> tooltip \<Rightarrow> tooltip" where
  "overlay_dispose r s =
     s\<lparr>overlays := (overlays s)[r := (overlays s ! r)\<lparr>ov_attached := None, ov_disposed := True\<rparr>],
       calls := calls s @ [Dispose r]\<rparr>"

text \<open>Modelled from the spec: \<open>hasAttached()\<close> tells whether the overlay holds content.\<close>

definition hasAttached :: "nat \<Rightarrow> tooltip \<Rightarrow> bool" where
  "hasAttached r s = (r < length (overlays s) \<and> ov_attached (overlays s ! r) \<noteq> None)"

text \<open>
  Modelled from the spec: an overlay takes content when it exists, holds none and was not
  disposed. The spec has a repeated show render nothing anew, and has \<open>dispose()\<close> release
  the overlay entirely.
\<close>

definition accepts_content :: "nat \<Rightarrow> tooltip \<Rightarrow> bool" where
  "accepts_content r s =
     (r < length (overlays s) \<and> ov_attached (overlays s ! r) = None
      \<and> \<not> ov_disposed (overlays s ! r))"

text \<open>
  Modelled from the spec: \<open>createContainer(overlayHandle, ComponentType, props)\<close> renders
  a new content into the overlay and returns its reference. On an overlay that takes no
  content the renderer refuses: it raises, renders nothing and returns no reference
  (\<open>None\<close>). The call is recorded in both cases.
\<close>

definition createContainer ::
  "nat \<Rightarrow> container_props \<Rightarrow> tooltip \<Rightarrow> nat option \<times> tooltip"
where
  "createContainer r props s =
     (if accepts_content r s
      then
        (Some (length (components s)),
         s\<lparr>components := components s @
              [\<lparr>comp_overlay = r, comp_position = props_position props,
                comp_content = props_content props\<rparr>],
           overlays := (overlays s)[r := (overlays s ! r)\<lparr>ov_attached := Some (length (components s))\<rparr>],
           calls := calls s @ [CreateContainer r props]\<rparr>)
      else (None, s\<lparr>calls := calls s @ [CreateContainer r props]\<rparr>))"

text \<open>
  Modelled from the spec: \<open>patch(contentRef, partialProps)\<close>, here always with the one
  property \<open>position\<close>. The spec does not say what the renderer does with an empty
  reference; the model records the call and changes no content then.
\<close>

definition patch :: "nat nullable \<Rightarrow> NbPosition \<Rightarrow> tooltip \<Rightarrow> tooltip" where
  "patch c p s =
     (case c of
        Ref i \<Rightarrow>
          s\<lparr>components := (components s)[i := (components s ! i)\<lparr>comp_position := p\<rparr>],
            calls := calls s @ [Patch c p]\<rparr>
      | _ \<Rightarrow> s\<lparr>calls := calls s @ [Patch c p]\<rparr>)"

subsection \<open>The methods of the directive\<close>

text \<open>The input setters \<open>icon\<close> and \<open>status\<close>: \<open>Object.assign(this.context, {key})\<close>.\<close>

definition set_icon :: "string \<Rightarrow> tooltip \<Rightarrow> tooltip" where
  "set_icon icon s = s\<lparr>context_bag := (context_bag s)(''icon'' \<mapsto> icon)\<rparr>"

definition set_status :: "string \<Rightarrow> tooltip \<Rightarrow> tooltip" where
  "set_status status s = s\<lparr>context_bag := (context_bag s)(''status'' \<mapsto> status)\<rparr>"

definition createOverlay :: "tooltip \<Rightarrow> tooltip" where
  "createOverlay s =
     (let (r, s') = overlay_create
                      \<lparr>cfg_positionStrategy = positionStrategy s,
                       cfg_scrollStrategy = Reposition\<rparr> s
      in s'\<lparr>ref := Ref r\<rparr>)"

text \<open>
  \<open>openTooltip\<close> is only called from \<open>show()\<close>, after the handle was created; the branch
  for an empty handle hands the renderer nothing to render into and is never reached from
  \<open>show()\<close>. When the renderer refuses, the exception leaves \<open>openTooltip\<close> (and \<open>show()\<close>)
  before the assignment to \<open>container\<close>.
\<close>

definition openTooltip :: "tooltip \<Rightarrow> tooltip" where
  "openTooltip s =
     (case ref s of
        Ref r \<Rightarrow>
          (case createContainer r
                  \<lparr>props_position = position s, props_content = content s,
                   props_context = context_bag s\<rparr> s of
             (Some c, s') \<Rightarrow> s'\<lparr>container := Ref c\<rparr>
           | (None, s') \<Rightarrow> s')
      | _ \<Rightarrow> s)"

definition show_tooltip :: "tooltip \<Rightarrow> tooltip" where
  "show_tooltip s = openTooltip (if \<not> truthy (ref s) then createOverlay s else s)"

definition hide :: "tooltip \<Rightarrow> tooltip" where
  "hide s =
     (case ref s of
        Ref r \<Rightarrow> (overlay_detach r s)\<lparr>container := Null\<rparr>
      | _ \<Rightarrow> s\<lparr>container := Null\<rparr>)"

definition toggle :: "tooltip \<Rightarrow> tooltip" where
  "toggle s =
     (case ref s of
        Ref r \<Rightarrow> if hasAttached r s then hide s else show_tooltip s
      | _ \<Rightarrow> show_tooltip s)"

definition createPositionStrategy :: "tooltip \<Rightarrow> NbAdjustableConnectedPositionStrategy" where
  "createPositionStrategy s =
     builder_offset 8
       (builder_adjustment (adjustment s)
          (builder_position (position s) (connectedTo (hostRef s))))"

definition createTriggerStrategy :: "tooltip \<Rightarrow> NbTriggerStrategy" where
  "createTriggerStrategy s = \<lparr>strategy_trigger = trigger s, trigger_host = hostRef s\<rparr>"

definition subscribeOnPositionChange :: "tooltip \<Rightarrow> tooltip" where
  "subscribeOnPositionChange s =
     s\<lparr>positionStrategy := Ref (createPositionStrategy s),
       position_subscribers := Suc (position_subscribers s),
       calls := calls s @
         [PositionStrategy_build (createPositionStrategy s), Subscribe_positionChange]\<rparr>"

definition subscribeOnTriggers :: "tooltip \<Rightarrow> tooltip" where
  "subscribeOnTriggers s =
     s\<lparr>show_subscribers := Suc (show_subscribers s),
       hide_subscribers := Suc (hide_subscribers s),
       calls := calls s @
         [TriggerStrategy_build (createTriggerStrategy s), Subscribe_show, Subscribe_hide]\<rparr>"

definition ngAfterViewInit :: "tooltip \<Rightarrow> tooltip" where
  "ngAfterViewInit s = subscribeOnPositionChange (subscribeOnTriggers s)"

definition ngOnDestroy :: "tooltip \<Rightarrow> tooltip" where
  "ngOnDestroy s =
     (let s' = hide (s\<lparr>alive := False\<rparr>)
      in case ref s' of Ref r \<Rightarrow> overlay_dispose r s' | _ \<Rightarrow> s')"

subsection \<open>Notifications\<close>

text \<open>
  Each subscription is \<open>stream.pipe(takeWhile(() => this.alive)).subscribe(handler)\<close>: a
  notification reaches the subscribers in turn; each one tests \<open>alive\<close>, runs the handler
  when it holds, and completes (is not notified again) when it does not. The function
  returns the number of subscribers still live and the state after the handlers.
\<close>

fun takeWhile_alive :: "nat \<Rightarrow> (tooltip \<Rightarrow> tooltip) \<Rightarrow> tooltip \<Rightarrow> nat \<times> tooltip" where
  "takeWhile_alive 0 handler s = (0, s)"
| "takeWhile_alive (Suc n) handler s =
     (if alive s
      then (let (k, s') = takeWhile_alive n handler (handler s) in (Suc k, s'))
      else takeWhile_alive n handler s)"

definition emit_show :: "tooltip \<Rightarrow> tooltip" where
  "emit_show s =
     (let (k, s') = takeWhile_alive (show_subscribers s) show_tooltip s
      in s'\<lparr>show_subscribers := k\<rparr>)"

definition emit_hide :: "tooltip \<Rightarrow> tooltip" where
  "emit_hide s =
     (let (k, s') = takeWhile_alive (hide_subscribers s) hide s
      in s'\<lparr>hide_subscribers := k\<rparr>)"

definition emit_positionChange :: "NbPosition \<Rightarrow> tooltip \<Rightarrow> tooltip" where
  "emit_positionChange p s =
     (let (k, s') = takeWhile_alive (position_subscribers s) (\<lambda>t. patch (container t) p t) s
      in s'\<lparr>position_subscribers := k\<rparr>)"

subsection \<open>Runs\<close>

text \<open>
  What can happen to a directive: the framework's lifecycle hooks and input bindings, the
  public methods, and the notifications of the three streams.
\<close>

datatype event =
    AfterViewInit
  | OnDestroy
  | Show
  | Hide
  | Toggle
  | SetIcon string
  | SetStatus string
  | SetContent string
  | SetPosition NbPosition
  | SetAdjustment NbAdjustment
  | SetTrigger NbTrigger
  | EmitShow
  | EmitHide
  | EmitPositionChange NbPosition

fun step :: "tooltip \<Rightarrow> event \<Rightarrow> tooltip" where
  "step s AfterViewInit = ngAfterViewInit s"
| "step s OnDestroy = ngOnDestroy s"
| "step s Show = show_tooltip s"
| "step s Hide = hide s"
| "step s Toggle = toggle s"
| "step s (SetIcon i) = set_icon i s"
| "step s (SetStatus st) = set_status st s"
| "step s (SetContent c) = s\<lparr>content := Ref c\<rparr>"
| "step s (SetPosition p) = s\<lparr>position := p\<rparr>"
| "step s (SetAdjustment a) = s\<lparr>adjustment := a\<rparr>"
| "step s (SetTrigger t) = s\<lparr>trigger := t\<rparr>"
| "step s EmitShow = emit_show s"
| "step s EmitHide = emit_hide s"
| "step s (EmitPositionChange p) = emit_positionChange p s"

definition run :: "event list \<Rightarrow> tooltip \<Rightarrow> tooltip" where
  "run evs s = foldl step s evs"

fun is_create :: "call \<Rightarrow> bool" where
  "is_create (Overlay_create _) = True"
| "is_create _ = False"

fun is_dispose :: "call \<Rightarrow> bool" where
  "is_dispose (Dispose _) = True"
| "is_dispose _ = False"

fun is_createContainer :: "call \<Rightarrow> bool" where
  "is_createContainer (CreateContainer _ _) = True"
| "is_createContainer _ = False"

subsection \<open>Observations\<close>

text \<open>The condition \<open>toggle()\<close> tests: a handle exists and has content attached.\<close>

definition shown :: "tooltip \<Rightarrow> bool" where
  "shown s = (case ref s of Ref r \<Rightarrow> hasAttached r s | _ \<Rightarrow> False)"

text \<open>
  Either no overlay was ever created and the handle is unset, or exactly one was and the
  handle refers to it.
\<close>

definition one_handle :: "tooltip \<Rightarrow> bool" where
  "one_handle s =
     (ref s = Undefined \<and> overlays s = [] \<and> filter is_create (calls s) = []
      \<or> ref s = Ref 0 \<and> length (overlays s) = 1 \<and> length (filter is_create (calls s)) = 1)"

text \<open>
  \<open>precedes P Q xs\<close>: walking through \<open>xs\<close>, an element with \<open>P\<close> is met before any element
  with \<open>Q\<close>.
\<close>

fun precedes :: "('a \<Rightarrow> bool) \<Rightarrow> ('a \<Rightarrow> bool) \<Rightarrow> 'a list \<Rightarrow> bool" where
  "precedes P Q [] = False"
| "precedes P Q (x # xs) = (if Q x then False else if P x then True else precedes P Q xs)"

fun is_position_call :: "call \<Rightarrow> bool" where
  "is_position_call (PositionStrategy_build _) = True"
| "is_position_call Subscribe_positionChange = True"
| "is_position_call _ = False"

fun is_trigger_call :: "call \<Rightarrow> bool" where
  "is_trigger_call (TriggerStrategy_build _) = True"
| "is_trigger_call Subscribe_show = True"
| "is_trigger_call Subscribe_hide = True"
| "is_trigger_call _ = False"

text \<open>
  A handle, when there is one, refers to an overlay that exists and was not disposed.
\<close>

definition handle_ok :: "tooltip \<Rightarrow> bool" where
  "handle_ok s =
     (case ref s of
        Ref r \<Rightarrow> r < length (overlays s) \<and> \<not> ov_disposed (overlays s ! r)
      | _ \<Rightarrow> True)"

text \<open>
  Content is cached exactly when it is shown, and at most one overlay exists.
\<close>

definition consistent :: "tooltip \<Rightarrow> bool" where
  "consistent s = (one_handle s \<and> truthy (container s) = shown s)"

text \<open>Kinds of events: notifications, input bindings, and the events that may call \<open>show()\<close>.\<close>

fun is_emit :: "event \<Rightarrow> bool" where
  "is_emit EmitShow = True"
| "is_emit EmitHide = True"
| "is_emit (EmitPositionChange _) = True"
| "is_emit _ = False"

fun is_input :: "event \<Rightarrow> bool" where
  "is_input (SetIcon _) = True"
| "is_input (SetStatus _) = True"
| "is_input (SetContent _) = True"
| "is_input (SetPosition _) = True"
| "is_input (SetAdjustment _) = True"
| "is_input (SetTrigger _) = True"
| "is_input _ = False"

fun may_show :: "event \<Rightarrow> bool" where
  "may_show Show = True"
| "may_show Toggle = True"
| "may_show EmitShow = True"
| "may_show _ = False"

text \<open>
  Two states that differ at most in the numbers of live subscriptions, which belong to
  the streams and not to the directive.
\<close>

definition same_but_subscribers :: "tooltip \<Rightarrow> tooltip \<Rightarrow> bool" where
  "same_but_subscribers s t =
     (t = s\<lparr>show_subscribers := show_subscribers t, hide_subscribers := hide_subscribers t,
            position_subscribers := position_subscribers t\<rparr>)"

text \<open>Nothing was disposed; nothing was created.\<close>

definition no_dispose :: "tooltip \<Rightarrow> bool" where
  "no_dispose s =
     (filter is_dispose (calls s) = [] \<and> list_all (\<lambda>ov. \<not> ov_disposed ov) (overlays s))"

definition no_overlay :: "tooltip \<Rightarrow> bool" where
  "no_overlay s = (ref s = Undefined \<and> overlays s = [])"

section \<open>Properties\<close>

subsection \<open>Unfolding and preservation lemmas\<close>

lemmas collab_defs =
  overlay_create_def overlay_detach_def overlay_dispose_def accepts_content_def
  createContainer_def patch_def

lemmas method_defs =
  createOverlay_def openTooltip_def show_tooltip_def hide_def toggle_def
  subscribeOnPositionChange_def subscribeOnTriggers_def ngAfterViewInit_def ngOnDestroy_def
  set_icon_def set_status_def

lemma takeWhile_alive_pres:
  "(\<And>t. P t \<Longrightarrow> P (handler t)) \<Longrightarrow> P s \<Longrightarrow> P (snd (takeWhile_alive n handler s))"
  by (induction n arbitrary: s) (simp_all add: split_beta)

lemma takeWhile_alive_dead: "\<not> alive s \<Longrightarrow> takeWhile_alive n handler s = (0, s)"
  by (induction n) auto

lemma toggle_cases: "toggle s = (if shown s then hide s else show_tooltip s)"
  by (cases "ref s") (simp_all add: toggle_def shown_def)

lemma input_step:
  "is_input e \<Longrightarrow>
     ref (step s e) = ref s \<and> container (step s e) = container s
   \<and> overlays (step s e) = overlays s \<and> components (step s e) = components s
   \<and> calls (step s e) = calls s \<and> alive (step s e) = alive s"
  by (cases e) (simp_all add: set_icon_def set_status_def)

subsection \<open>One overlay per directive\<close>

lemma one_handle_show: "one_handle s \<Longrightarrow> one_handle (show_tooltip s)"
  by (cases "ref s") (auto simp: one_handle_def method_defs collab_defs)

lemma one_handle_hide: "one_handle s \<Longrightarrow> one_handle (hide s)"
  by (cases "ref s") (auto simp: one_handle_def method_defs collab_defs)

lemma one_handle_toggle: "one_handle s \<Longrightarrow> one_handle (toggle s)"
  by (cases "ref s") (auto simp: toggle_def one_handle_show one_handle_hide)

lemma one_handle_patch: "one_handle s \<Longrightarrow> one_handle (patch c p s)"
  by (cases c) (auto simp: one_handle_def patch_def split: nullable.splits)

lemma one_handle_destroy: "one_handle s \<Longrightarrow> one_handle (ngOnDestroy s)"
  by (cases "ref s") (auto simp: one_handle_def method_defs collab_defs)

lemma one_handle_init: "one_handle s \<Longrightarrow> one_handle (ngAfterViewInit s)"
  by (cases "ref s") (auto simp: one_handle_def method_defs collab_defs)

lemma one_handle_subs [simp]:
  "one_handle (s\<lparr>show_subscribers := k\<rparr>) = one_handle s"
  "one_handle (s\<lparr>hide_subscribers := k\<rparr>) = one_handle s"
  "one_handle (s\<lparr>position_subscribers := k\<rparr>) = one_handle s"
  by (simp_all add: one_handle_def)

lemma one_handle_emit_show: "one_handle s \<Longrightarrow> one_handle (emit_show s)"
  using takeWhile_alive_pres [of one_handle show_tooltip s "show_subscribers s"]
  by (auto simp: emit_show_def one_handle_show split: prod.splits)

lemma one_handle_emit_hide: "one_handle s \<Longrightarrow> one_handle (emit_hide s)"
  using takeWhile_alive_pres [of one_handle hide s "hide_subscribers s"]
  by (auto simp: emit_hide_def one_handle_hide split: prod.splits)

lemma one_handle_emit_position: "one_handle s \<Longrightarrow> one_handle (emit_positionChange p s)"
  using takeWhile_alive_pres [of one_handle "\<lambda>t. patch (container t) p t" s "position_subscribers s"]
  by (auto simp: emit_positionChange_def one_handle_patch split: prod.splits)

lemma one_handle_fields:
  "ref t = ref s \<Longrightarrow> overlays t = overlays s \<Longrightarrow> calls t = calls s \<Longrightarrow>
   one_handle t = one_handle s"
  by (simp add: one_handle_def)

lemma one_handle_step: "one_handle s \<Longrightarrow> one_handle (step s e)"
proof (cases "is_input e")
  case True
  assume "one_handle s"
  then show ?thesis
    using True one_handle_fields [of "step s e" s] input_step [of e s] by simp
next
  case False
  assume "one_handle s"
  then show ?thesis
    using False
    by (cases e)
       (simp_all add: one_handle_show one_handle_hide one_handle_toggle one_handle_destroy
          one_handle_init one_handle_emit_show one_handle_emit_hide one_handle_emit_position)
qed

lemma one_handle_foldl: "one_handle s \<Longrightarrow> one_handle (foldl step s evs)"
  by (induction evs arbitrary: s) (auto simp: one_handle_step)

lemma one_handle_new: "one_handle (new_directive h)"
  by (simp add: one_handle_def new_directive_def)

lemma one_handle_bound:
  "one_handle s \<Longrightarrow> length (overlays s) \<le> 1 \<and> length (filter is_create (calls s)) \<le> 1"
  by (cases "ref s") (auto simp: one_handle_def)

lemma ref_show: "\<exists>r. ref (show_tooltip s) = Ref r"
  by (cases "ref s") (auto simp: method_defs collab_defs)

lemma show_with_handle:
  "ref s = Ref r \<Longrightarrow>
   ref (show_tooltip s) = Ref r
   \<and> length (overlays (show_tooltip s)) = length (overlays s)
   \<and> calls (show_tooltip s) =
       calls s @ [CreateContainer r \<lparr>props_position = position s, props_content = content s,
                                     props_context = context_bag s\<rparr>]"
  by (auto simp: method_defs collab_defs)

text \<open>
  C1. Whatever happens to a directive (lifecycle hooks, input bindings, \<open>show()\<close>,
  \<open>hide()\<close>, \<open>toggle()\<close>, notifications, in any order and number), at most one overlay is
  ever created for it. In particular a second \<open>show()\<close> right after a \<open>show()\<close> keeps the
  handle and issues no further \<open>overlay.create\<close>, so that two consecutive calls create at
  most one overlay.
\<close>

theorem at_most_one_overlay:
  "length (overlays (run evs (new_directive h))) \<le> 1
   \<and> length (filter is_create (calls (run evs (new_directive h)))) \<le> 1
   \<and> ref (show_tooltip (show_tooltip s)) = ref (show_tooltip s)
   \<and> length (overlays (show_tooltip (show_tooltip s))) = length (overlays (show_tooltip s))
   \<and> filter is_create (calls (show_tooltip (show_tooltip s))) = filter is_create (calls (show_tooltip s))
   \<and> length (filter is_create (calls (show_tooltip (show_tooltip s))))
        \<le> Suc (length (filter is_create (calls s)))"
proof -
  have "one_handle (run evs (new_directive h))"
    unfolding run_def by (rule one_handle_foldl [OF one_handle_new])
  then have a: "length (overlays (run evs (new_directive h))) \<le> 1
      \<and> length (filter is_create (calls (run evs (new_directive h)))) \<le> 1"
    by (rule one_handle_bound)
  obtain r where r: "ref (show_tooltip s) = Ref r"
    using ref_show by blast
  have b: "ref (show_tooltip (show_tooltip s)) = ref (show_tooltip s)
      \<and> length (overlays (show_tooltip (show_tooltip s))) = length (overlays (show_tooltip s))
      \<and> filter is_create (calls (show_tooltip (show_tooltip s))) = filter is_create (calls (show_tooltip s))"
    using show_with_handle [OF r] r by simp
  have c: "length (filter is_create (calls (show_tooltip s))) \<le> Suc (length (filter is_create (calls s)))"
    by (cases "ref s") (auto simp: method_defs collab_defs)
  show ?thesis using a b c by simp
qed

subsection \<open>Showing again\<close>

lemma show_when_shown:
  "ref s = Ref r \<Longrightarrow> hasAttached r s \<Longrightarrow>
   show_tooltip s =
     s\<lparr>calls := calls s @
          [CreateContainer r \<lparr>props_position = position s, props_content = content s,
                              props_context = context_bag s\<rparr>]\<rparr>"
  by (auto simp: method_defs collab_defs hasAttached_def)

text \<open>
  C2. A repeated \<open>show()\<close> on a shown tooltip should be idempotent, and content should
  never be rendered through it. The code does not hold to this: \<open>show()\<close> guards
  \<open>createOverlay()\<close> only and calls \<open>openTooltip()\<close> whatever the state. On a directive
  that was constructed, initialised and shown, a second \<open>show()\<close> asks the renderer for
  content again, on the overlay that holds the content of the first call; the renderer
  refuses, so nothing new is rendered and the cached reference stays, but the second
  \<open>createContainer\<close> call was issued.
\<close>

theorem show_again_calls_createContainer:
  "shown (show_tooltip (ngAfterViewInit (new_directive 0)))
   \<and> container (show_tooltip (ngAfterViewInit (new_directive 0))) = Ref 0
   \<and> calls (show_tooltip (show_tooltip (ngAfterViewInit (new_directive 0)))) =
       calls (show_tooltip (ngAfterViewInit (new_directive 0))) @
         [CreateContainer 0
            \<lparr>props_position = TOP, props_content = Undefined, props_context = Map.empty\<rparr>]
   \<and> length (filter is_createContainer
        (calls (show_tooltip (show_tooltip (ngAfterViewInit (new_directive 0)))))) = 2
   \<and> fst (createContainer 0
        \<lparr>props_position = TOP, props_content = Undefined, props_context = Map.empty\<rparr>
        (show_tooltip (ngAfterViewInit (new_directive 0)))) = None
   \<and> components (show_tooltip (show_tooltip (ngAfterViewInit (new_directive 0))))
       = components (show_tooltip (ngAfterViewInit (new_directive 0)))
   \<and> container (show_tooltip (show_tooltip (ngAfterViewInit (new_directive 0)))) = Ref 0"
  by (simp add: method_defs collab_defs shown_def hasAttached_def new_directive_def
        createPositionStrategy_def createTriggerStrategy_def)

subsection \<open>Initialisation\<close>

text \<open>
  C3, as stated, fails: \<open>ngAfterViewInit\<close> calls \<open>subscribeOnTriggers()\<close> first and
  \<open>subscribeOnPositionChange()\<close> second, so the trigger strategy is built and subscribed
  before the position strategy exists.
\<close>

theorem init_order_counterexample:
  "\<not> precedes is_position_call is_trigger_call (calls (ngAfterViewInit (new_directive 0)))"
  by (simp add: method_defs new_directive_def)

lemma emit_show_once:
  "alive s \<Longrightarrow> show_subscribers s = Suc 0 \<Longrightarrow> emit_show s = show_tooltip s"
  by (cases "ref s") (simp_all add: emit_show_def method_defs collab_defs split: nullable.splits)

lemma emit_hide_once:
  "alive s \<Longrightarrow> hide_subscribers s = Suc 0 \<Longrightarrow> emit_hide s = hide s"
  by (cases "ref s") (simp_all add: emit_hide_def method_defs collab_defs)

lemma emit_position_once:
  "alive s \<Longrightarrow> position_subscribers s = Suc 0 \<Longrightarrow>
   emit_positionChange p s = patch (container s) p s"
  by (simp add: emit_positionChange_def patch_def split: nullable.splits)

lemma init_keeps:
  "alive (ngAfterViewInit s) = alive s
   \<and> show_subscribers (ngAfterViewInit s) = Suc (show_subscribers s)
   \<and> hide_subscribers (ngAfterViewInit s) = Suc (hide_subscribers s)
   \<and> position_subscribers (ngAfterViewInit s) = Suc (position_subscribers s)"
  by (simp add: method_defs)

text \<open>
  C3, amended. Initialisation issues exactly five commands, in this order: build the
  trigger strategy (trigger mode, host), subscribe to its show stream, subscribe to its
  hide stream, build the position strategy (host, placement, adjustment, offset 8),
  subscribe to its position changes. The strategy built is stored in \<open>positionStrategy\<close>.
  The subscriptions route to the methods: on a live directive that had no subscription
  before, a show notification after initialisation does what \<open>show()\<close> does, a hide
  notification what \<open>hide()\<close> does, and a position change patches the position of the
  cached content. This holds up to the numbers of live subscriptions in every case, and
  exactly for a trigger mode other than noop (whose streams never notify) where the
  handler does not raise (what a stream does with a subscriber whose handler raised is
  left to the stream).
\<close>

theorem init_order:
  "calls (ngAfterViewInit s) =
     calls s @
       [TriggerStrategy_build \<lparr>strategy_trigger = trigger s, trigger_host = hostRef s\<rparr>,
        Subscribe_show, Subscribe_hide,
        PositionStrategy_build
          \<lparr>strategy_host = hostRef s, strategy_position = Some (position s),
           strategy_adjustment = Some (adjustment s), strategy_offset = Some 8\<rparr>,
        Subscribe_positionChange]
   \<and> precedes is_trigger_call is_position_call (calls (ngAfterViewInit (new_directive h)))
   \<and> positionStrategy (ngAfterViewInit s) =
       Ref \<lparr>strategy_host = hostRef s, strategy_position = Some (position s),
            strategy_adjustment = Some (adjustment s), strategy_offset = Some 8\<rparr>
   \<and> (alive s \<and> show_subscribers s = 0 \<longrightarrow>
        same_but_subscribers (show_tooltip (ngAfterViewInit s)) (emit_show (ngAfterViewInit s)))
   \<and> (alive s \<and> hide_subscribers s = 0 \<longrightarrow>
        same_but_subscribers (hide (ngAfterViewInit s)) (emit_hide (ngAfterViewInit s)))
   \<and> (alive s \<and> position_subscribers s = 0 \<longrightarrow>
        same_but_subscribers
          (patch (container (ngAfterViewInit s)) p (ngAfterViewInit s))
          (emit_positionChange p (ngAfterViewInit s)))
   \<and> (alive s \<and> show_subscribers s = 0 \<and> trigger s \<noteq> NOOP_TRIGGER
        \<and> handle_ok s \<and> \<not> shown s \<longrightarrow>
        emit_show (ngAfterViewInit s) = show_tooltip (ngAfterViewInit s))
   \<and> (alive s \<and> hide_subscribers s = 0 \<and> trigger s \<noteq> NOOP_TRIGGER \<longrightarrow>
        emit_hide (ngAfterViewInit s) = hide (ngAfterViewInit s))"
proof -
  have a: "calls (ngAfterViewInit s) =
     calls s @
       [TriggerStrategy_build \<lparr>strategy_trigger = trigger s, trigger_host = hostRef s\<rparr>,
        Subscribe_show, Subscribe_hide,
        PositionStrategy_build
          \<lparr>strategy_host = hostRef s, strategy_position = Some (position s),
           strategy_adjustment = Some (adjustment s), strategy_offset = Some 8\<rparr>,
        Subscribe_positionChange]"
    by (simp add: method_defs createPositionStrategy_def createTriggerStrategy_def
          connectedTo_def builder_position_def builder_adjustment_def builder_offset_def)
  have b: "precedes is_trigger_call is_position_call (calls (ngAfterViewInit (new_directive h)))"
    by (simp add: method_defs new_directive_def)
  have c: "positionStrategy (ngAfterViewInit s) =
       Ref \<lparr>strategy_host = hostRef s, strategy_position = Some (position s),
            strategy_adjustment = Some (adjustment s), strategy_offset = Some 8\<rparr>"
    by (simp add: method_defs createPositionStrategy_def
          connectedTo_def builder_position_def builder_adjustment_def builder_offset_def)
  have d: "alive s \<and> show_subscribers s = 0 \<longrightarrow>
      emit_show (ngAfterViewInit s) = show_tooltip (ngAfterViewInit s)"
    using emit_show_once [of "ngAfterViewInit s"] init_keeps [of s] by simp
  have e: "alive s \<and> hide_subscribers s = 0 \<longrightarrow>
      emit_hide (ngAfterViewInit s) = hide (ngAfterViewInit s)"
    using emit_hide_once [of "ngAfterViewInit s"] init_keeps [of s] by simp
  have f: "alive s \<and> position_subscribers s = 0 \<longrightarrow>
      emit_positionChange p (ngAfterViewInit s) =
        patch (container (ngAfterViewInit s)) p (ngAfterViewInit s)"
    using emit_position_once [of "ngAfterViewInit s" p] init_keeps [of s] by simp
  have d': "alive s \<and> show_subscribers s = 0 \<longrightarrow>
        same_but_subscribers (show_tooltip (ngAfterViewInit s)) (emit_show (ngAfterViewInit s))"
    using d by (simp add: same_but_subscribers_def)
  have e': "alive s \<and> hide_subscribers s = 0 \<longrightarrow>
        same_but_subscribers (hide (ngAfterViewInit s)) (emit_hide (ngAfterViewInit s))"
    using e by (simp add: same_but_subscribers_def)
  have f': "alive s \<and> position_subscribers s = 0 \<longrightarrow>
        same_but_subscribers
          (patch (container (ngAfterViewInit s)) p (ngAfterViewInit s))
          (emit_positionChange p (ngAfterViewInit s))"
    using f by (simp add: same_but_subscribers_def)
  from a b c d' e' f' d e show ?thesis
    by blast
qed

theorem init_order_witness:
  "alive (new_directive 0) \<and> show_subscribers (new_directive 0) = 0
   \<and> hide_subscribers (new_directive 0) = 0 \<and> position_subscribers (new_directive 0) = 0
   \<and> trigger (new_directive 0) \<noteq> NOOP_TRIGGER
   \<and> handle_ok (new_directive 0) \<and> \<not> shown (new_directive 0)
   \<and> emit_show (ngAfterViewInit (new_directive 0)) = show_tooltip (ngAfterViewInit (new_directive 0))
   \<and> container (emit_show (ngAfterViewInit (new_directive 0))) = Ref 0
   \<and> emit_hide (ngAfterViewInit (new_directive 0)) = hide (ngAfterViewInit (new_directive 0))
   \<and> calls (emit_hide (ngAfterViewInit (new_directive 0)))
       = calls (ngAfterViewInit (new_directive 0))
   \<and> container (emit_hide (ngAfterViewInit (new_directive 0))) = Null
   \<and> same_but_subscribers
        (patch (container (ngAfterViewInit (new_directive 0))) LEFT (ngAfterViewInit (new_directive 0)))
        (emit_positionChange LEFT (ngAfterViewInit (new_directive 0)))"
proof -
  let ?s = "new_directive 0"
  note T = init_order [of ?s 0 LEFT]
  have pre: "alive ?s \<and> show_subscribers ?s = 0 \<and> hide_subscribers ?s = 0
      \<and> position_subscribers ?s = 0 \<and> trigger ?s \<noteq> NOOP_TRIGGER"
    by (simp add: new_directive_def)
  have ok: "handle_ok ?s \<and> \<not> shown ?s"
    by (simp add: handle_ok_def shown_def new_directive_def)
  have w1: "emit_show (ngAfterViewInit ?s) = show_tooltip (ngAfterViewInit ?s)"
    using T pre ok by blast
  have w2: "emit_hide (ngAfterViewInit ?s) = hide (ngAfterViewInit ?s)"
    using T pre by blast
  have w3: "same_but_subscribers
        (patch (container (ngAfterViewInit ?s)) LEFT (ngAfterViewInit ?s))
        (emit_positionChange LEFT (ngAfterViewInit ?s))"
    using T pre by blast
  have c1: "container (show_tooltip (ngAfterViewInit ?s)) = Ref 0"
    by (simp add: method_defs collab_defs new_directive_def)
  have c2: "calls (hide (ngAfterViewInit ?s)) = calls (ngAfterViewInit ?s)
      \<and> container (hide (ngAfterViewInit ?s)) = Null"
    by (simp add: method_defs collab_defs new_directive_def)
  have d1: "container (emit_show (ngAfterViewInit ?s)) = Ref 0"
    by (simp only: w1 c1)
  have d2: "calls (emit_hide (ngAfterViewInit ?s)) = calls (ngAfterViewInit ?s)
      \<and> container (emit_hide (ngAfterViewInit ?s)) = Null"
    by (simp only: w2 c2)
  from pre ok w1 d1 w2 d2 w3 show ?thesis
    by blast
qed

subsection \<open>Hiding\<close>

lemma overlay_no_attachment:
  "\<not> hasAttached r s \<Longrightarrow> (overlays s)[r := (overlays s ! r)\<lparr>ov_attached := None\<rparr>] = overlays s"
  by (cases "r < length (overlays s)") (simp_all add: hasAttached_def list_update_same_conv list_update_beyond)

lemma consistent_show: "consistent s \<Longrightarrow> consistent (show_tooltip s)"
  unfolding consistent_def
  by (cases "ref s")
     (auto simp: one_handle_def shown_def hasAttached_def method_defs collab_defs)

lemma consistent_hide: "consistent s \<Longrightarrow> consistent (hide s)"
  unfolding consistent_def
  by (cases "ref s")
     (auto simp: one_handle_def shown_def hasAttached_def method_defs collab_defs)

lemma consistent_toggle: "consistent s \<Longrightarrow> consistent (toggle s)"
  by (cases "ref s") (auto simp: toggle_def consistent_show consistent_hide)

lemma consistent_patch: "consistent s \<Longrightarrow> consistent (patch c p s)"
  unfolding consistent_def
  by (cases c) (auto simp: one_handle_def shown_def hasAttached_def patch_def split: nullable.splits)

lemma consistent_destroy: "consistent s \<Longrightarrow> consistent (ngOnDestroy s)"
  unfolding consistent_def
  by (cases "ref s")
     (auto simp: one_handle_def shown_def hasAttached_def method_defs collab_defs)

lemma consistent_fields:
  "ref t = ref s \<Longrightarrow> overlays t = overlays s \<Longrightarrow> calls t = calls s \<Longrightarrow>
   container t = container s \<Longrightarrow> consistent t = consistent s"
  by (cases "ref s") (simp_all add: consistent_def one_handle_def shown_def hasAttached_def)

lemma consistent_init: "consistent s \<Longrightarrow> consistent (ngAfterViewInit s)"
  unfolding consistent_def
  by (cases "ref s")
     (auto simp: one_handle_def shown_def hasAttached_def method_defs collab_defs)

lemma consistent_emit_show: "consistent s \<Longrightarrow> consistent (emit_show s)"
  using takeWhile_alive_pres [of consistent show_tooltip s "show_subscribers s"]
    consistent_fields [of "emit_show s" "snd (takeWhile_alive (show_subscribers s) show_tooltip s)"]
  by (simp add: emit_show_def consistent_show split_beta)

lemma consistent_emit_hide: "consistent s \<Longrightarrow> consistent (emit_hide s)"
  using takeWhile_alive_pres [of consistent hide s "hide_subscribers s"]
    consistent_fields [of "emit_hide s" "snd (takeWhile_alive (hide_subscribers s) hide s)"]
  by (simp add: emit_hide_def consistent_hide split_beta)

lemma consistent_emit_position: "consistent s \<Longrightarrow> consistent (emit_positionChange p s)"
  using takeWhile_alive_pres [of consistent "\<lambda>t. patch (container t) p t" s "position_subscribers s"]
    consistent_fields [of "emit_positionChange p s"
      "snd (takeWhile_alive (position_subscribers s) (\<lambda>t. patch (container t) p t) s)"]
  by (simp add: emit_positionChange_def consistent_patch split_beta)

lemma consistent_step: "consistent s \<Longrightarrow> consistent (step s e)"
proof (cases "is_input e")
  case True
  assume "consistent s"
  then show ?thesis
    using True consistent_fields [of "step s e" s] input_step [of e s] by simp
next
  case False
  assume "consistent s"
  then show ?thesis
    using False
    by (cases e)
       (simp_all add: consistent_show consistent_hide consistent_toggle consistent_destroy
          consistent_init consistent_emit_show consistent_emit_hide consistent_emit_position)
qed

lemma consistent_run: "consistent (run evs (new_directive h))"
proof -
  have "consistent s \<Longrightarrow> consistent (foldl step s evs)" for s
    by (induction evs arbitrary: s) (auto simp: consistent_step)
  moreover have "consistent (new_directive h)"
    by (simp add: consistent_def one_handle_def shown_def new_directive_def)
  ultimately show ?thesis by (simp add: run_def)
qed

text \<open>
  C4. With a handle, \<open>hide()\<close> detaches the content from the overlay (one \<open>detach\<close> is
  issued, no \<open>dispose\<close>), keeps the handle and the overlay's disposed flag as they were,
  and sets the cached content reference to \<open>null\<close>. When nothing is shown, \<open>hide()\<close>
  changes no overlay and no content: without a handle it issues no command at all and
  only stores \<open>null\<close> in the content reference, which in every run from the constructor
  held no content then (it was \<open>undefined\<close> or already \<open>null\<close>); with a handle that has
  nothing attached the \<open>detach\<close> it issues leaves the overlay as it was.
\<close>

theorem hide_detaches_keeps_handle:
  "(ref s = Ref r \<longrightarrow>
      ref (hide s) = Ref r
      \<and> container (hide s) = Null
      \<and> overlays (hide s) = (overlays s)[r := (overlays s ! r)\<lparr>ov_attached := None\<rparr>]
      \<and> \<not> hasAttached r (hide s)
      \<and> ov_disposed (overlays (hide s) ! r) = ov_disposed (overlays s ! r)
      \<and> calls (hide s) = calls s @ [Detach r]
      \<and> components (hide s) = components s)
   \<and> (\<not> shown s \<longrightarrow>
      overlays (hide s) = overlays s \<and> components (hide s) = components s
      \<and> ref (hide s) = ref s \<and> hide s = s\<lparr>container := Null, calls := calls (hide s)\<rparr>)
   \<and> (\<not> truthy (ref s) \<longrightarrow> hide s = s\<lparr>container := Null\<rparr>)
   \<and> (\<not> truthy (ref s) \<and> container s = Null \<longrightarrow> hide s = s)
   \<and> (\<not> shown (run evs (new_directive h)) \<longrightarrow>
      \<not> truthy (container (run evs (new_directive h))))
   \<and> filter is_dispose (calls (hide s)) = filter is_dispose (calls s)"
proof -
  have a: "ref s = Ref r \<longrightarrow>
      ref (hide s) = Ref r
      \<and> container (hide s) = Null
      \<and> overlays (hide s) = (overlays s)[r := (overlays s ! r)\<lparr>ov_attached := None\<rparr>]
      \<and> \<not> hasAttached r (hide s)
      \<and> ov_disposed (overlays (hide s) ! r) = ov_disposed (overlays s ! r)
      \<and> calls (hide s) = calls s @ [Detach r]
      \<and> components (hide s) = components s"
    by (cases "r < length (overlays s)")
       (auto simp: hide_def overlay_detach_def hasAttached_def list_update_beyond)
  have b: "\<not> shown s \<longrightarrow>
      overlays (hide s) = overlays s \<and> components (hide s) = components s
      \<and> ref (hide s) = ref s \<and> hide s = s\<lparr>container := Null, calls := calls (hide s)\<rparr>"
    by (cases "ref s") (auto simp: shown_def hide_def overlay_detach_def overlay_no_attachment)
  have c: "\<not> truthy (ref s) \<longrightarrow> hide s = s\<lparr>container := Null\<rparr>"
    by (cases "ref s") (auto simp: hide_def)
  have d: "filter is_dispose (calls (hide s)) = filter is_dispose (calls s)"
    by (cases "ref s") (auto simp: hide_def overlay_detach_def)
  have e: "\<not> shown (run evs (new_directive h)) \<longrightarrow>
      \<not> truthy (container (run evs (new_directive h)))"
    using consistent_run [of evs h] by (simp add: consistent_def)
  have c': "\<not> truthy (ref s) \<and> container s = Null \<longrightarrow> hide s = s"
    by (cases "ref s") (auto simp: hide_def)
  from a b c c' e d show ?thesis
    by (intro conjI)
qed

theorem hide_detaches_keeps_handle_witness:
  "ref (hide (show_tooltip (new_directive 0))) = Ref 0
   \<and> container (hide (show_tooltip (new_directive 0))) = Null
   \<and> calls (hide (show_tooltip (new_directive 0))) =
       calls (show_tooltip (new_directive 0)) @ [Detach 0]
   \<and> \<not> hasAttached 0 (hide (show_tooltip (new_directive 0)))
   \<and> \<not> ov_disposed (overlays (hide (show_tooltip (new_directive 0))) ! 0)
   \<and> hide (new_directive 0) = (new_directive 0)\<lparr>container := Null\<rparr>
   \<and> overlays (hide (hide (show_tooltip (new_directive 0))))
       = overlays (hide (show_tooltip (new_directive 0)))
   \<and> \<not> truthy (container (run [Show, Hide] (new_directive 0)))"
proof -
  let ?s = "show_tooltip (new_directive 0)"
  note T1 = hide_detaches_keeps_handle [of ?s 0 "[Show, Hide]" 0]
  note T2 = hide_detaches_keeps_handle [of "new_directive 0" 0 "[]" 0]
  note T3 = hide_detaches_keeps_handle [of "hide ?s" 0 "[]" 0]
  have r: "ref ?s = Ref 0"
    by (simp add: method_defs collab_defs new_directive_def)
  have live: "\<not> ov_disposed (overlays ?s ! 0)"
    by (simp add: method_defs collab_defs new_directive_def)
  have n: "\<not> truthy (ref (new_directive 0))"
    by (simp add: new_directive_def)
  have w1: "ref (hide ?s) = Ref 0 \<and> container (hide ?s) = Null
      \<and> calls (hide ?s) = calls ?s @ [Detach 0] \<and> \<not> hasAttached 0 (hide ?s)
      \<and> ov_disposed (overlays (hide ?s) ! 0) = ov_disposed (overlays ?s ! 0)"
    using T1 r by blast
  then have h: "\<not> shown (hide ?s)"
    by (simp add: shown_def)
  have w2: "hide (new_directive 0) = (new_directive 0)\<lparr>container := Null\<rparr>"
    using T2 n by blast
  have w3: "overlays (hide (hide ?s)) = overlays (hide ?s)"
    using T3 h by blast
  have "run [Show, Hide] (new_directive 0) = hide ?s"
    by (simp add: run_def)
  then have w4: "\<not> truthy (container (run [Show, Hide] (new_directive 0)))"
    using T1 h by simp
  from w1 live w2 w3 w4 show ?thesis
    by simp
qed

subsection \<open>Toggling\<close>

lemma handle_ok_show: "handle_ok s \<Longrightarrow> handle_ok (show_tooltip s) \<and> shown (show_tooltip s)"
  by (cases "ref s")
     (auto simp: handle_ok_def shown_def hasAttached_def method_defs collab_defs nth_append)

lemma handle_ok_hide: "handle_ok s \<Longrightarrow> handle_ok (hide s) \<and> \<not> shown (hide s)"
  by (cases "ref s")
     (auto simp: handle_ok_def shown_def hasAttached_def method_defs collab_defs)

lemma toggle_flips:
  "handle_ok s \<Longrightarrow> handle_ok (toggle s) \<and> shown (toggle s) = (\<not> shown s)"
  by (simp add: toggle_cases handle_ok_show handle_ok_hide)

text \<open>
  C5. \<open>toggle()\<close> calls \<open>hide()\<close> exactly when a handle exists and has content attached,
  and \<open>show()\<close> otherwise. As long as the handle, if there is one, refers to an overlay
  that was not disposed, each call flips whether the tooltip is shown; so from a hidden
  state the first call shows, the second hides and the third shows again.
\<close>

theorem toggle_alternates:
  "toggle s = (if shown s then hide s else show_tooltip s)
   \<and> (handle_ok s \<longrightarrow> shown (toggle s) = (\<not> shown s) \<and> handle_ok (toggle s))
   \<and> (handle_ok s \<and> \<not> shown s \<longrightarrow>
        toggle s = show_tooltip s
        \<and> shown (toggle s)
        \<and> toggle (toggle s) = hide (toggle s)
        \<and> \<not> shown (toggle (toggle s))
        \<and> toggle (toggle (toggle s)) = show_tooltip (toggle (toggle s))
        \<and> shown (toggle (toggle (toggle s))))"
proof -
  have t1: "toggle s = (if shown s then hide s else show_tooltip s)"
    by (rule toggle_cases)
  have t1': "\<not> shown s \<Longrightarrow> toggle s = show_tooltip s"
    by (simp add: toggle_cases [of s])
  have t2: "shown (toggle s) \<Longrightarrow> toggle (toggle s) = hide (toggle s)"
    by (simp add: toggle_cases [of "toggle s"])
  have t3: "\<not> shown (toggle (toggle s)) \<Longrightarrow>
      toggle (toggle (toggle s)) = show_tooltip (toggle (toggle s))"
    by (simp add: toggle_cases [of "toggle (toggle s)"])
  have 1: "handle_ok s \<Longrightarrow> handle_ok (toggle s) \<and> shown (toggle s) = (\<not> shown s)"
    by (rule toggle_flips)
  have 2: "handle_ok s \<Longrightarrow>
      handle_ok (toggle (toggle s)) \<and> shown (toggle (toggle s)) = (\<not> shown (toggle s))"
    using 1 toggle_flips [of "toggle s"] by blast
  have 3: "handle_ok s \<Longrightarrow>
      shown (toggle (toggle (toggle s))) = (\<not> shown (toggle (toggle s)))"
    using 2 toggle_flips [of "toggle (toggle s)"] by blast
  show ?thesis
    using 1 2 3 t1 t1' t2 t3 by blast
qed

theorem toggle_alternates_witness:
  "handle_ok (new_directive 0) \<and> \<not> shown (new_directive 0)
   \<and> shown (toggle (new_directive 0))
   \<and> \<not> shown (toggle (toggle (new_directive 0)))
   \<and> shown (toggle (toggle (toggle (new_directive 0))))
   \<and> container (toggle (new_directive 0)) = Ref 0
   \<and> container (toggle (toggle (new_directive 0))) = Null"
proof -
  have ok: "handle_ok (new_directive 0)"
    by (simp add: handle_ok_def new_directive_def)
  have hidden: "\<not> shown (new_directive 0)"
    by (simp add: shown_def new_directive_def)
  have c1: "container (show_tooltip (new_directive 0)) = Ref 0"
    by (simp add: method_defs collab_defs new_directive_def)
  have c2: "container (hide t) = Null" for t
    by (cases "ref t") (simp_all add: hide_def overlay_detach_def)
  note T = toggle_alternates [of "new_directive 0"]
  have e1: "toggle (new_directive 0) = show_tooltip (new_directive 0)"
    using T ok hidden by blast
  have e2: "toggle (toggle (new_directive 0)) = hide (toggle (new_directive 0))"
    using T ok hidden by blast
  have d1: "container (toggle (new_directive 0)) = Ref 0"
    by (simp only: e1 c1)
  have d2: "container (toggle (toggle (new_directive 0))) = Null"
    by (simp only: e2 c2)
  show ?thesis
    using T ok hidden d1 d2 by blast
qed

subsection \<open>Notifications after teardown\<close>

lemma emit_dead:
  "\<not> alive s \<Longrightarrow>
     emit_show s = s\<lparr>show_subscribers := 0\<rparr>
   \<and> emit_hide s = s\<lparr>hide_subscribers := 0\<rparr>
   \<and> emit_positionChange p s = s\<lparr>position_subscribers := 0\<rparr>"
  by (simp add: emit_show_def emit_hide_def emit_positionChange_def takeWhile_alive_dead)

lemma same_but_subscribers_refl: "same_but_subscribers s s"
  by (simp add: same_but_subscribers_def)

lemma dead_step:
  "\<not> alive s \<Longrightarrow> is_emit e \<Longrightarrow> same_but_subscribers s (step s e) \<and> \<not> alive (step s e)"
  by (cases e) (simp_all add: emit_dead same_but_subscribers_def)

lemma same_but_subscribers_trans:
  "same_but_subscribers s t \<Longrightarrow> same_but_subscribers t u \<Longrightarrow> same_but_subscribers s u"
  unfolding same_but_subscribers_def
  by (metis (no_types, lifting) tooltip.update_convs(13,14,15) tooltip.surjective)

lemma dead_run:
  "\<not> alive s \<Longrightarrow> list_all is_emit evs \<Longrightarrow> same_but_subscribers s (foldl step s evs)"
proof (induction evs arbitrary: s)
  case Nil
  then show ?case by (simp add: same_but_subscribers_refl)
next
  case (Cons e evs)
  then have "same_but_subscribers s (step s e)" and "\<not> alive (step s e)"
    using dead_step [of s e] by simp_all
  moreover have "same_but_subscribers (step s e) (foldl step (step s e) evs)"
    using Cons \<open>\<not> alive (step s e)\<close> by simp
  ultimately show ?case
    using same_but_subscribers_trans by fastforce
qed

lemma same_but_subscribers_fields:
  "same_but_subscribers s t \<Longrightarrow>
     context_bag t = context_bag s \<and> content t = content s \<and> position t = position s
   \<and> adjustment t = adjustment s \<and> trigger t = trigger s \<and> ref t = ref s
   \<and> container t = container s \<and> positionStrategy t = positionStrategy s
   \<and> alive t = alive s \<and> hostRef t = hostRef s \<and> overlays t = overlays s
   \<and> components t = components s \<and> calls t = calls s"
  unfolding same_but_subscribers_def
  by (metis (no_types, lifting) tooltip.select_convs tooltip.surjective tooltip.update_convs(13,14,15))

lemma destroy_dead: "\<not> alive (ngOnDestroy t)"
  by (cases "ref t") (simp_all add: ngOnDestroy_def hide_def overlay_detach_def overlay_dispose_def)

text \<open>
  C6. Teardown clears the liveness flag, and once it is cleared no notification is acted
  upon: a show, hide or position-change notification runs no handler (no \<open>show()\<close>, no
  \<open>hide()\<close>, no \<open>patch\<close>), it only completes the subscriptions of its stream. After any
  sequence of notifications the directive's fields, the overlays, the rendered contents
  (their position fields included) and the commands issued are what they were.
\<close>

theorem no_reaction_after_teardown:
  "\<not> alive (ngOnDestroy t)
   \<and> (\<not> alive s \<longrightarrow>
        emit_show s = s\<lparr>show_subscribers := 0\<rparr>
        \<and> emit_hide s = s\<lparr>hide_subscribers := 0\<rparr>
        \<and> emit_positionChange p s = s\<lparr>position_subscribers := 0\<rparr>)
   \<and> (\<not> alive s \<and> list_all is_emit evs \<longrightarrow>
        same_but_subscribers s (run evs s)
        \<and> components (run evs s) = components s
        \<and> container (run evs s) = container s
        \<and> ref (run evs s) = ref s
        \<and> overlays (run evs s) = overlays s
        \<and> calls (run evs s) = calls s)"
proof -
  have "same_but_subscribers s (run evs s)" if "\<not> alive s" "list_all is_emit evs"
    using that by (simp add: run_def dead_run)
  then show ?thesis
    using destroy_dead [of t] emit_dead [of s p] same_but_subscribers_fields [of s "run evs s"]
    by blast
qed

theorem no_reaction_after_teardown_witness:
  "\<not> alive (ngOnDestroy (show_tooltip (ngAfterViewInit (new_directive 0))))
   \<and> list_all is_emit [EmitPositionChange BOTTOM, EmitShow, EmitHide]
   \<and> map comp_position
        (components (run [EmitPositionChange BOTTOM, EmitShow, EmitHide]
           (ngOnDestroy (show_tooltip (ngAfterViewInit (new_directive 0)))))) = [TOP]
   \<and> calls (run [EmitPositionChange BOTTOM, EmitShow, EmitHide]
           (ngOnDestroy (show_tooltip (ngAfterViewInit (new_directive 0)))))
       = calls (ngOnDestroy (show_tooltip (ngAfterViewInit (new_directive 0))))"
proof -
  let ?s = "ngOnDestroy (show_tooltip (ngAfterViewInit (new_directive 0)))"
  let ?evs = "[EmitPositionChange BOTTOM, EmitShow, EmitHide]"
  have dead: "\<not> alive ?s"
    by (simp add: method_defs collab_defs new_directive_def)
  have emits: "list_all is_emit ?evs"
    by simp
  have comps: "map comp_position (components ?s) = [TOP]"
    by (simp add: method_defs collab_defs new_directive_def)
  show ?thesis
    using no_reaction_after_teardown [of "show_tooltip (ngAfterViewInit (new_directive 0))" ?s BOTTOM ?evs]
      dead emits comps
    by simp
qed

subsection \<open>Teardown\<close>

lemma list_all_update:
  "list_all P xs \<Longrightarrow> P x \<Longrightarrow> list_all P (xs[i := x])"
  using set_update_subset_insert [of xs i x] by (auto simp: list_all_iff)

lemma list_all_update_nth:
  "list_all P xs \<Longrightarrow> (i < length xs \<Longrightarrow> P (f (xs ! i))) \<Longrightarrow> list_all P (xs[i := f (xs ! i)])"
  by (cases "i < length xs") (simp_all add: list_all_update list_update_beyond)

lemma no_dispose_fields:
  "overlays t = overlays s \<Longrightarrow> calls t = calls s \<Longrightarrow> no_dispose t = no_dispose s"
  by (simp add: no_dispose_def)

lemma no_dispose_createContainer:
  "no_dispose s \<Longrightarrow> no_dispose (snd (createContainer r props s))"
  using list_all_update_nth [of "\<lambda>ov. \<not> ov_disposed ov" "overlays s" r
          "\<lambda>ov. ov\<lparr>ov_attached := Some (length (components s))\<rparr>"]
  by (simp add: no_dispose_def createContainer_def list_all_length)

lemma no_dispose_detach: "no_dispose s \<Longrightarrow> no_dispose (overlay_detach r s)"
  using list_all_update_nth [of "\<lambda>ov. \<not> ov_disposed ov" "overlays s" r
          "\<lambda>ov. ov\<lparr>ov_attached := None\<rparr>"]
  by (simp add: no_dispose_def overlay_detach_def list_all_length)

lemma no_dispose_createOverlay: "no_dispose s \<Longrightarrow> no_dispose (createOverlay s)"
  by (simp add: no_dispose_def createOverlay_def overlay_create_def)

lemma no_dispose_openTooltip: "no_dispose s \<Longrightarrow> no_dispose (openTooltip s)"
proof (cases "ref s")
  case (Ref r)
  assume nd: "no_dispose s"
  obtain res s' where eq: "createContainer r
      \<lparr>props_position = position s, props_content = content s, props_context = context_bag s\<rparr> s
      = (res, s')"
    by (cases "createContainer r
      \<lparr>props_position = position s, props_content = content s, props_context = context_bag s\<rparr> s")
  have "no_dispose s'"
    using no_dispose_createContainer [OF nd, of r
        "\<lparr>props_position = position s, props_content = content s, props_context = context_bag s\<rparr>"]
      eq by simp
  then show ?thesis
    using Ref eq by (cases res) (simp_all add: openTooltip_def no_dispose_def)
qed (simp_all add: openTooltip_def)

lemma no_dispose_show: "no_dispose s \<Longrightarrow> no_dispose (show_tooltip s)"
  by (simp add: show_tooltip_def no_dispose_openTooltip no_dispose_createOverlay)

lemma no_dispose_hide: "no_dispose s \<Longrightarrow> no_dispose (hide s)"
proof (cases "ref s")
  case (Ref r)
  assume "no_dispose s"
  then have "no_dispose (overlay_detach r s)"
    by (rule no_dispose_detach)
  then show ?thesis
    using Ref by (simp add: hide_def no_dispose_def)
qed (simp_all add: hide_def no_dispose_def)

lemma no_dispose_toggle: "no_dispose s \<Longrightarrow> no_dispose (toggle s)"
  by (simp add: toggle_cases no_dispose_show no_dispose_hide)

lemma no_dispose_patch: "no_dispose s \<Longrightarrow> no_dispose (patch c p s)"
  by (cases c) (simp_all add: no_dispose_def patch_def)

lemma no_dispose_init: "no_dispose s \<Longrightarrow> no_dispose (ngAfterViewInit s)"
  by (simp add: no_dispose_def ngAfterViewInit_def subscribeOnPositionChange_def
        subscribeOnTriggers_def)

lemma no_dispose_emit_show: "no_dispose s \<Longrightarrow> no_dispose (emit_show s)"
  using takeWhile_alive_pres [of no_dispose show_tooltip s "show_subscribers s"]
    no_dispose_fields [of "emit_show s" "snd (takeWhile_alive (show_subscribers s) show_tooltip s)"]
  by (simp add: emit_show_def no_dispose_show split_beta)

lemma no_dispose_emit_hide: "no_dispose s \<Longrightarrow> no_dispose (emit_hide s)"
  using takeWhile_alive_pres [of no_dispose hide s "hide_subscribers s"]
    no_dispose_fields [of "emit_hide s" "snd (takeWhile_alive (hide_subscribers s) hide s)"]
  by (simp add: emit_hide_def no_dispose_hide split_beta)

lemma no_dispose_emit_position: "no_dispose s \<Longrightarrow> no_dispose (emit_positionChange p s)"
  using takeWhile_alive_pres [of no_dispose "\<lambda>t. patch (container t) p t" s "position_subscribers s"]
    no_dispose_fields [of "emit_positionChange p s"
      "snd (takeWhile_alive (position_subscribers s) (\<lambda>t. patch (container t) p t) s)"]
  by (simp add: emit_positionChange_def no_dispose_patch split_beta)

lemma no_dispose_step:
  assumes "no_dispose s" and "e \<noteq> OnDestroy"
  shows "no_dispose (step s e)"
proof (cases "is_input e")
  case True
  then show ?thesis
    using assms(1) no_dispose_fields [of "step s e" s] input_step [of e s] by simp
next
  case False
  then show ?thesis
    using assms
    by (cases e)
       (simp_all add: no_dispose_show no_dispose_hide no_dispose_toggle no_dispose_init
          no_dispose_emit_show no_dispose_emit_hide no_dispose_emit_position)
qed

lemma no_dispose_foldl:
  "no_dispose s \<Longrightarrow> OnDestroy \<notin> set evs \<Longrightarrow> no_dispose (foldl step s evs)"
proof (induction evs arbitrary: s)
  case Nil
  then show ?case by simp
next
  case (Cons e evs)
  then have "e \<noteq> OnDestroy" and "OnDestroy \<notin> set evs"
    by auto
  then show ?case
    using Cons.IH [of "step s e"] Cons.prems(1) no_dispose_step [of s e] by simp
qed

lemma no_overlay_fields:
  "ref t = ref s \<Longrightarrow> overlays t = overlays s \<Longrightarrow> no_overlay t = no_overlay s"
  by (simp add: no_overlay_def)

lemma no_overlay_hide: "no_overlay s \<Longrightarrow> no_overlay (hide s)"
  by (simp add: no_overlay_def hide_def)

lemma no_overlay_patch: "no_overlay s \<Longrightarrow> no_overlay (patch c p s)"
  by (cases c) (simp_all add: no_overlay_def patch_def)

lemma no_overlay_emit_hide: "no_overlay s \<Longrightarrow> no_overlay (emit_hide s)"
  using takeWhile_alive_pres [of no_overlay hide s "hide_subscribers s"]
    no_overlay_fields [of "emit_hide s" "snd (takeWhile_alive (hide_subscribers s) hide s)"]
  by (simp add: emit_hide_def no_overlay_hide split_beta)

lemma no_overlay_emit_position: "no_overlay s \<Longrightarrow> no_overlay (emit_positionChange p s)"
  using takeWhile_alive_pres [of no_overlay "\<lambda>t. patch (container t) p t" s "position_subscribers s"]
    no_overlay_fields [of "emit_positionChange p s"
      "snd (takeWhile_alive (position_subscribers s) (\<lambda>t. patch (container t) p t) s)"]
  by (simp add: emit_positionChange_def no_overlay_patch split_beta)

lemma no_overlay_init: "no_overlay s \<Longrightarrow> no_overlay (ngAfterViewInit s)"
  by (simp add: no_overlay_def ngAfterViewInit_def subscribeOnPositionChange_def
        subscribeOnTriggers_def)

lemma no_overlay_destroy: "no_overlay s \<Longrightarrow> no_overlay (ngOnDestroy s)"
  by (simp add: no_overlay_def ngOnDestroy_def hide_def)

lemma no_overlay_step:
  assumes "no_overlay s" and "\<not> may_show e"
  shows "no_overlay (step s e)"
proof (cases "is_input e")
  case True
  then show ?thesis
    using assms(1) no_overlay_fields [of "step s e" s] input_step [of e s] by simp
next
  case False
  then show ?thesis
    using assms
    by (cases e)
       (simp_all add: no_overlay_hide no_overlay_emit_hide no_overlay_emit_position
          no_overlay_init no_overlay_destroy)
qed

lemma no_overlay_foldl:
  "no_overlay s \<Longrightarrow> list_all (\<lambda>e. \<not> may_show e) evs \<Longrightarrow> no_overlay (foldl step s evs)"
  by (induction evs arbitrary: s) (simp_all add: no_overlay_step)

lemma destroy_with_handle:
  "ref s = Ref r \<Longrightarrow>
     ngOnDestroy s = overlay_dispose r (hide (s\<lparr>alive := False\<rparr>))
   \<and> calls (ngOnDestroy s) = calls s @ [Detach r, Dispose r]
   \<and> \<not> alive (ngOnDestroy s)
   \<and> container (ngOnDestroy s) = Null
   \<and> ref (ngOnDestroy s) = Ref r
   \<and> components (ngOnDestroy s) = components s
   \<and> length (overlays (ngOnDestroy s)) = length (overlays s)
   \<and> filter is_create (calls (ngOnDestroy s)) = filter is_create (calls s)"
  by (simp add: ngOnDestroy_def hide_def overlay_detach_def overlay_dispose_def)

lemma destroy_disposes:
  "ref s = Ref r \<Longrightarrow> r < length (overlays s) \<Longrightarrow>
     ov_disposed (overlays (ngOnDestroy s) ! r) \<and> ov_attached (overlays (ngOnDestroy s) ! r) = None"
  by (simp add: ngOnDestroy_def hide_def overlay_detach_def overlay_dispose_def)

text \<open>
  C7. Teardown clears the liveness flag, then calls \<open>hide()\<close>, then disposes the overlay
  if there is one: with a handle the commands issued are \<open>detach\<close> then \<open>dispose\<close>, and the
  overlay ends disposed with nothing attached; without a handle nothing is issued. The
  overlay is disposed at teardown only: a run without teardown issues no \<open>dispose\<close> and
  leaves no overlay disposed, and \<open>hide()\<close> never issues one. It is created lazily: a run
  in which nothing calls \<open>show()\<close> creates no overlay.
\<close>

theorem teardown_order:
  "(ref s = Ref r \<longrightarrow>
      ngOnDestroy s = overlay_dispose r (hide (s\<lparr>alive := False\<rparr>))
      \<and> calls (ngOnDestroy s) = calls s @ [Detach r, Dispose r]
      \<and> \<not> alive (ngOnDestroy s)
      \<and> container (ngOnDestroy s) = Null
      \<and> ref (ngOnDestroy s) = Ref r)
   \<and> (ref s = Ref r \<and> r < length (overlays s) \<longrightarrow>
      ov_disposed (overlays (ngOnDestroy s) ! r)
      \<and> ov_attached (overlays (ngOnDestroy s) ! r) = None)
   \<and> (\<not> truthy (ref s) \<longrightarrow> ngOnDestroy s = s\<lparr>alive := False, container := Null\<rparr>)
   \<and> (OnDestroy \<notin> set evs \<longrightarrow>
      filter is_dispose (calls (run evs (new_directive h))) = []
      \<and> list_all (\<lambda>ov. \<not> ov_disposed ov) (overlays (run evs (new_directive h))))
   \<and> (list_all (\<lambda>e. \<not> may_show e) evs \<longrightarrow>
      overlays (run evs (new_directive h)) = [] \<and> ref (run evs (new_directive h)) = Undefined)
   \<and> filter is_dispose (calls (hide s)) = filter is_dispose (calls s)"
proof -
  have a: "\<not> truthy (ref s) \<longrightarrow> ngOnDestroy s = s\<lparr>alive := False, container := Null\<rparr>"
    by (cases "ref s") (simp_all add: ngOnDestroy_def hide_def)
  have "no_dispose (new_directive h)"
    by (simp add: no_dispose_def new_directive_def)
  then have "OnDestroy \<notin> set evs \<longrightarrow> no_dispose (run evs (new_directive h))"
    by (simp add: run_def no_dispose_foldl)
  then have b: "OnDestroy \<notin> set evs \<longrightarrow>
      filter is_dispose (calls (run evs (new_directive h))) = []
      \<and> list_all (\<lambda>ov. \<not> ov_disposed ov) (overlays (run evs (new_directive h)))"
    by (simp add: no_dispose_def)
  have "no_overlay (new_directive h)"
    by (simp add: no_overlay_def new_directive_def)
  then have "list_all (\<lambda>e. \<not> may_show e) evs \<longrightarrow> no_overlay (run evs (new_directive h))"
    by (simp add: run_def no_overlay_foldl)
  then have c: "list_all (\<lambda>e. \<not> may_show e) evs \<longrightarrow>
      overlays (run evs (new_directive h)) = [] \<and> ref (run evs (new_directive h)) = Undefined"
    by (simp add: no_overlay_def)
  have d: "filter is_dispose (calls (hide s)) = filter is_dispose (calls s)"
    by (cases "ref s") (simp_all add: hide_def overlay_detach_def)
  have e: "ref s = Ref r \<longrightarrow>
      ngOnDestroy s = overlay_dispose r (hide (s\<lparr>alive := False\<rparr>))
      \<and> calls (ngOnDestroy s) = calls s @ [Detach r, Dispose r]
      \<and> \<not> alive (ngOnDestroy s)
      \<and> container (ngOnDestroy s) = Null
      \<and> ref (ngOnDestroy s) = Ref r"
    using destroy_with_handle [of s r] by blast
  have f: "ref s = Ref r \<and> r < length (overlays s) \<longrightarrow>
      ov_disposed (overlays (ngOnDestroy s) ! r)
      \<and> ov_attached (overlays (ngOnDestroy s) ! r) = None"
    using destroy_disposes [of s r] by blast
  from e f a b c d show ?thesis
    by (intro conjI)
qed

theorem teardown_order_witness:
  "calls (ngOnDestroy (show_tooltip (new_directive 0))) =
     calls (show_tooltip (new_directive 0)) @ [Detach 0, Dispose 0]
   \<and> ov_disposed (overlays (ngOnDestroy (show_tooltip (new_directive 0))) ! 0)
   \<and> ngOnDestroy (new_directive 0) = (new_directive 0)\<lparr>alive := False, container := Null\<rparr>
   \<and> list_all (\<lambda>ov. \<not> ov_disposed ov)
        (overlays (run [AfterViewInit, Show, Hide, Toggle] (new_directive 0)))
   \<and> filter is_dispose (calls (run [AfterViewInit, Show, Hide, Toggle] (new_directive 0))) = []
   \<and> overlays (run [AfterViewInit, Hide, EmitHide, OnDestroy] (new_directive 0)) = []"
proof -
  let ?s = "show_tooltip (new_directive 0)"
  note T1 = teardown_order [of ?s 0 "[AfterViewInit, Show, Hide, Toggle]" 0]
  note T2 = teardown_order [of "new_directive 0" 0 "[AfterViewInit, Hide, EmitHide, OnDestroy]" 0]
  have r: "ref ?s = Ref 0 \<and> 0 < length (overlays ?s)"
    by (simp add: method_defs collab_defs new_directive_def)
  have n: "\<not> truthy (ref (new_directive 0))"
    by (simp add: new_directive_def)
  have e1: "OnDestroy \<notin> set [AfterViewInit, Show, Hide, Toggle]"
    by simp
  have e2: "list_all (\<lambda>e. \<not> may_show e) [AfterViewInit, Hide, EmitHide, OnDestroy]"
    by simp
  have w1: "calls (ngOnDestroy ?s) = calls ?s @ [Detach 0, Dispose 0]"
    using T1 r by blast
  have w2: "ov_disposed (overlays (ngOnDestroy ?s) ! 0)"
    using T1 r by blast
  have w3: "ngOnDestroy (new_directive 0) = (new_directive 0)\<lparr>alive := False, container := Null\<rparr>"
    using T2 n by blast
  have w4: "list_all (\<lambda>ov. \<not> ov_disposed ov)
        (overlays (run [AfterViewInit, Show, Hide, Toggle] (new_directive 0)))
      \<and> filter is_dispose (calls (run [AfterViewInit, Show, Hide, Toggle] (new_directive 0))) = []"
    using T1 e1 by blast
  have w5: "overlays (run [AfterViewInit, Hide, EmitHide, OnDestroy] (new_directive 0)) = []"
    using T2 e2 by blast
  from w1 w2 w3 w4 w5 show ?thesis
    by blast
qed

subsection \<open>The configuration of the overlay\<close>

text \<open>
  C8. For every placement \<open>P\<close> and adjustment \<open>A\<close> (and whatever the other inputs are), a
  directive constructed on host \<open>h\<close> with these inputs, initialised and shown, has issued
  exactly one \<open>overlay.create\<close>; its configuration carries the position strategy built by
  \<open>connectedTo(h).position(P).adjustment(A).offset(8)\<close>, and the scroll strategy
  \<open>reposition\<close>.
\<close>

theorem show_creates_configured_overlay:
  "filter is_create
     (calls (show_tooltip (ngAfterViewInit
        ((new_directive h)\<lparr>context_bag := ctx, content := c, position := P,
                             adjustment := A, trigger := t\<rparr>))))
     = [Overlay_create
          \<lparr>cfg_positionStrategy =
             Ref (builder_offset 8 (builder_adjustment A (builder_position P (connectedTo h)))),
           cfg_scrollStrategy = Reposition\<rparr>]
   \<and> builder_offset 8 (builder_adjustment A (builder_position P (connectedTo h)))
     = \<lparr>strategy_host = h, strategy_position = Some P, strategy_adjustment = Some A,
        strategy_offset = Some 8\<rparr>
   \<and> map ov_config
       (overlays (show_tooltip (ngAfterViewInit
          ((new_directive h)\<lparr>context_bag := ctx, content := c, position := P,
                               adjustment := A, trigger := t\<rparr>))))
     = [\<lparr>cfg_positionStrategy =
             Ref (builder_offset 8 (builder_adjustment A (builder_position P (connectedTo h)))),
         cfg_scrollStrategy = Reposition\<rparr>]
   \<and> ref (show_tooltip (ngAfterViewInit
          ((new_directive h)\<lparr>context_bag := ctx, content := c, position := P,
                               adjustment := A, trigger := t\<rparr>))) = Ref 0"
  by (simp add: method_defs collab_defs new_directive_def createPositionStrategy_def
        createTriggerStrategy_def connectedTo_def builder_position_def builder_adjustment_def
        builder_offset_def)

subsection \<open>The context bag\<close>

text \<open>
  C9. Setting the icon input and then the status input, in either order, merges each key
  into the context: afterwards the context holds both entries, and every other key is as
  it was.
\<close>

theorem icon_status_merge:
  "context_bag (set_status st (set_icon ic s)) ''icon'' = Some ic
   \<and> context_bag (set_status st (set_icon ic s)) ''status'' = Some st
   \<and> context_bag (set_icon ic (set_status st s)) ''icon'' = Some ic
   \<and> context_bag (set_icon ic (set_status st s)) ''status'' = Some st
   \<and> context_bag (set_status st (set_icon ic s)) = context_bag (set_icon ic (set_status st s))
   \<and> context_bag (set_status st (set_icon ic s)) = (context_bag s)(''icon'' \<mapsto> ic, ''status'' \<mapsto> st)"
  by (auto simp: set_icon_def set_status_def)


subsection \<open>The handle is never reassigned\<close>

lemma ref_kept_show: "ref s = Ref r \<Longrightarrow> ref (show_tooltip s) = Ref r"
  by (simp add: method_defs collab_defs)

lemma ref_kept_hide: "ref s = Ref r \<Longrightarrow> ref (hide s) = Ref r"
  by (simp add: method_defs collab_defs)

lemma ref_kept_toggle: "ref s = Ref r \<Longrightarrow> ref (toggle s) = Ref r"
  by (simp add: toggle_cases ref_kept_show ref_kept_hide)

lemma ref_kept_patch: "ref s = Ref r \<Longrightarrow> ref (patch c p s) = Ref r"
  by (cases c) (simp_all add: patch_def)

lemma ref_kept_destroy: "ref s = Ref r \<Longrightarrow> ref (ngOnDestroy s) = Ref r"
  by (simp add: method_defs collab_defs)

lemma ref_kept_init: "ref s = Ref r \<Longrightarrow> ref (ngAfterViewInit s) = Ref r"
  by (simp add: method_defs collab_defs)

lemma ref_kept_emit_show: "ref s = Ref r \<Longrightarrow> ref (emit_show s) = Ref r"
  using takeWhile_alive_pres [of "\<lambda>t. ref t = Ref r" show_tooltip s "show_subscribers s"]
  by (simp add: emit_show_def ref_kept_show split_beta)

lemma ref_kept_emit_hide: "ref s = Ref r \<Longrightarrow> ref (emit_hide s) = Ref r"
  using takeWhile_alive_pres [of "\<lambda>t. ref t = Ref r" hide s "hide_subscribers s"]
  by (simp add: emit_hide_def ref_kept_hide split_beta)

lemma ref_kept_emit_position: "ref s = Ref r \<Longrightarrow> ref (emit_positionChange p s) = Ref r"
  using takeWhile_alive_pres [of "\<lambda>t. ref t = Ref r" "\<lambda>t. patch (container t) p t" s
          "position_subscribers s"]
  by (simp add: emit_positionChange_def ref_kept_patch split_beta)

lemma ref_kept_step: "ref s = Ref r \<Longrightarrow> ref (step s e) = Ref r"
  by (cases e)
     (simp_all add: ref_kept_show ref_kept_hide ref_kept_toggle ref_kept_destroy ref_kept_init
        ref_kept_emit_show ref_kept_emit_hide ref_kept_emit_position set_icon_def set_status_def)

lemma ref_kept_foldl: "ref s = Ref r \<Longrightarrow> ref (foldl step s evs) = Ref r"
  by (induction evs arbitrary: s) (simp_all add: ref_kept_step)

lemma destroy_refuses:
  "ref s = Ref r \<Longrightarrow> \<not> accepts_content r (ngOnDestroy s)"
  by (cases "r < length (overlays s)")
     (simp_all add: accepts_content_def ngOnDestroy_def hide_def overlay_detach_def
        overlay_dispose_def)

lemma show_after_destroy:
  assumes "ref s = Ref r"
  shows "show_tooltip (ngOnDestroy s) =
     (ngOnDestroy s)\<lparr>calls := calls s @ [Detach r, Dispose r,
        CreateContainer r \<lparr>props_position = position s, props_content = content s,
                            props_context = context_bag s\<rparr>]\<rparr>"
proof -
  let ?d = "ngOnDestroy s"
  have d: "ref ?d = Ref r \<and> position ?d = position s \<and> content ?d = content s
      \<and> context_bag ?d = context_bag s \<and> calls ?d = calls s @ [Detach r, Dispose r]"
    using assms by (simp add: ngOnDestroy_def hide_def overlay_detach_def overlay_dispose_def)
  have "\<not> accepts_content r ?d"
    using assms by (rule destroy_refuses)
  then show ?thesis
    using d by (simp add: show_tooltip_def openTooltip_def createContainer_def)
qed

text \<open>
  C10, as stated, fails in its last part: \<open>show()\<close> after teardown does call
  \<open>createContainer\<close> on the retained handle, but teardown has disposed that overlay and
  it takes no content: nothing is rendered, nothing is attached and the cached content
  reference stays \<open>null\<close>.
\<close>

theorem show_after_teardown_counterexample:
  "\<not> hasAttached 0
       (show_tooltip (ngOnDestroy (show_tooltip (ngAfterViewInit (new_directive 0)))))
   \<and> container (show_tooltip (ngOnDestroy (show_tooltip (ngAfterViewInit (new_directive 0)))))
       = Null
   \<and> components (show_tooltip (ngOnDestroy (show_tooltip (ngAfterViewInit (new_directive 0)))))
       = components (show_tooltip (ngAfterViewInit (new_directive 0)))"
  by (simp add: method_defs collab_defs hasAttached_def new_directive_def
        createPositionStrategy_def createTriggerStrategy_def)

text \<open>
  C10, amended. Once the handle is set, nothing clears or reassigns it: not \<open>hide()\<close>, not
  \<open>toggle()\<close>, not teardown, nor any other event. The liveness flag is not consulted by
  \<open>show()\<close>: called after teardown, it creates no overlay and calls \<open>createContainer\<close> on
  the retained handle, whose overlay teardown has disposed. The disposed overlay takes no
  content: the call renders nothing, and the state after it is the state after teardown
  with that one call added.
\<close>

theorem handle_never_reassigned:
  assumes "ref s = Ref r"
  shows "ref (step s e) = Ref r
   \<and> ref (run evs s) = Ref r
   \<and> ref (hide s) = Ref r \<and> ref (toggle s) = Ref r \<and> ref (ngOnDestroy s) = Ref r
   \<and> ref (show_tooltip (ngOnDestroy s)) = Ref r
   \<and> \<not> alive (show_tooltip (ngOnDestroy s))
   \<and> length (overlays (show_tooltip (ngOnDestroy s))) = length (overlays s)
   \<and> filter is_create (calls (show_tooltip (ngOnDestroy s))) = filter is_create (calls s)
   \<and> calls (show_tooltip (ngOnDestroy s)) =
       calls s @ [Detach r, Dispose r,
                  CreateContainer r \<lparr>props_position = position s, props_content = content s,
                                      props_context = context_bag s\<rparr>]
   \<and> (r < length (overlays s) \<longrightarrow> ov_disposed (overlays (ngOnDestroy s) ! r)
        \<and> ov_disposed (overlays (show_tooltip (ngOnDestroy s)) ! r))
   \<and> show_tooltip (ngOnDestroy s) =
       (ngOnDestroy s)\<lparr>calls := calls (show_tooltip (ngOnDestroy s))\<rparr>
   \<and> container (show_tooltip (ngOnDestroy s)) = Null
   \<and> components (show_tooltip (ngOnDestroy s)) = components s
   \<and> \<not> shown (show_tooltip (ngOnDestroy s))"
proof -
  note sad = show_after_destroy [OF assms]
  have dwh: "\<not> alive (ngOnDestroy s) \<and> container (ngOnDestroy s) = Null
      \<and> ref (ngOnDestroy s) = Ref r \<and> components (ngOnDestroy s) = components s
      \<and> length (overlays (ngOnDestroy s)) = length (overlays s)"
    using destroy_with_handle [OF assms] by blast
  have a: "ref (run evs s) = Ref r"
    using assms by (simp add: run_def ref_kept_foldl)
  have b: "ref (show_tooltip (ngOnDestroy s)) = Ref r
      \<and> \<not> alive (show_tooltip (ngOnDestroy s))
      \<and> length (overlays (show_tooltip (ngOnDestroy s))) = length (overlays s)
      \<and> container (show_tooltip (ngOnDestroy s)) = Null
      \<and> components (show_tooltip (ngOnDestroy s)) = components s"
    using dwh by (simp add: sad)
  have c: "calls (show_tooltip (ngOnDestroy s)) =
       calls s @ [Detach r, Dispose r,
                  CreateContainer r \<lparr>props_position = position s, props_content = content s,
                                      props_context = context_bag s\<rparr>]"
    by (simp add: sad)
  then have c': "filter is_create (calls (show_tooltip (ngOnDestroy s))) = filter is_create (calls s)"
    by simp
  have d: "r < length (overlays s) \<longrightarrow> ov_disposed (overlays (ngOnDestroy s) ! r)
        \<and> ov_disposed (overlays (show_tooltip (ngOnDestroy s)) ! r)"
    using destroy_disposes [of s r] assms by (simp add: sad)
  have e: "show_tooltip (ngOnDestroy s) =
       (ngOnDestroy s)\<lparr>calls := calls (show_tooltip (ngOnDestroy s))\<rparr>"
    by (simp add: sad)
  have "\<not> hasAttached r (ngOnDestroy s)"
    using destroy_disposes [of s r] assms dwh by (auto simp: hasAttached_def)
  then have f: "\<not> shown (show_tooltip (ngOnDestroy s))"
    using b by (simp add: shown_def hasAttached_def sad)
  from a b c c' d e f assms ref_kept_step [of s r e] ref_kept_hide [of s r]
    ref_kept_toggle [of s r] ref_kept_destroy [of s r]
  show ?thesis
    by blast
qed

theorem handle_never_reassigned_witness:
  "ref (show_tooltip (ngAfterViewInit (new_directive 0))) = Ref 0
   \<and> ref (run [Hide, Toggle, OnDestroy, Show, EmitHide]
        (show_tooltip (ngAfterViewInit (new_directive 0)))) = Ref 0
   \<and> length (overlays (show_tooltip (ngOnDestroy (show_tooltip (ngAfterViewInit (new_directive 0)))))) = 1
   \<and> ov_disposed
       (overlays (show_tooltip (ngOnDestroy (show_tooltip (ngAfterViewInit (new_directive 0))))) ! 0)
   \<and> container (show_tooltip (ngOnDestroy (show_tooltip (ngAfterViewInit (new_directive 0))))) = Null
   \<and> length (filter is_createContainer
        (calls (show_tooltip (ngOnDestroy (show_tooltip (ngAfterViewInit (new_directive 0))))))) = 2"
proof -
  let ?s = "show_tooltip (ngAfterViewInit (new_directive 0))"
  have r: "ref ?s = Ref 0"
    by (simp add: method_defs collab_defs new_directive_def)
  have l: "length (overlays ?s) = 1"
    by (simp add: method_defs collab_defs new_directive_def)
  have k: "length (filter is_createContainer (calls ?s)) = 1"
    by (simp add: method_defs collab_defs new_directive_def)
  note T = handle_never_reassigned [OF r, of Show "[Hide, Toggle, OnDestroy, Show, EmitHide]"]
  have w1: "ref (run [Hide, Toggle, OnDestroy, Show, EmitHide] ?s) = Ref 0"
    using T by blast
  have w2: "length (overlays (show_tooltip (ngOnDestroy ?s))) = length (overlays ?s)"
    using T by blast
  have w3: "ov_disposed (overlays (show_tooltip (ngOnDestroy ?s)) ! 0)"
    using T l by simp
  have w4: "container (show_tooltip (ngOnDestroy ?s)) = Null"
    using T by blast
  have "calls (show_tooltip (ngOnDestroy ?s)) =
       calls ?s @ [Detach 0, Dispose 0,
                   CreateContainer 0 \<lparr>props_position = position ?s, props_content = content ?s,
                                       props_context = context_bag ?s\<rparr>]"
    using T by blast
  then have w5: "length (filter is_createContainer (calls (show_tooltip (ngOnDestroy ?s)))) = 2"
    using k by simp
  show ?thesis
    using r w1 w2 w3 w4 w5 l by simp
qed


end
